theory Spec2Isabelle
  imports Complex_Main
begin

section \<open>The GSD trajectory reader (MDAnalysis.coordinates.GSD)\<close>

text \<open>
  A shallow embedding of \<^verbatim>\<open>GSDReader\<close>. The reader is a Python object whose attributes
  are mutated in place; here it is a record that every operation takes and returns. An
  operation that raises still returns the reader as the raise leaves it, because the
  assignments made before a \<^verbatim>\<open>raise\<close> stay on the object.

  Three collaborators are outside the file and are modelled by their contracts:
  \<^item> the \<^verbatim>\<open>gsd.hoomd\<close> trajectory (the container): a sequence of snapshots, indexed
    like a Python sequence, behind a handle that can be closed;
  \<^item> the generic \<^verbatim>\<open>Timestep\<close>: a record of named fields;
  \<^item> \<^verbatim>\<open>numpy\<close>: floating-point numbers are idealised as the reals, so that
    \<^verbatim>\<open>np.sqrt\<close>, \<^verbatim>\<open>np.arccos\<close> and \<^verbatim>\<open>np.pi\<close> are \<^const>\<open>sqrt\<close>, \<^const>\<open>arccos\<close> and
    \<^const>\<open>pi\<close>. Rounding is not modelled.
\<close>

subsection \<open>Errors\<close>

text \<open>
  The exceptions that can leave the reader. \<open>ValueError frame n_atoms_now n_atoms\<close> is
  the \<^verbatim>\<open>ValueError\<close> of \<^verbatim>\<open>_read_frame\<close>, with the three arguments of its message.
  \<open>ClosedFileError\<close> and \<open>OpenFailed\<close> stand for what the container library itself raises
  on a closed handle and on a file it cannot open.
\<close>

datatype error =
    NotImplementedError
  | IOError
  | IndexError
  | ValueError int int int
  | ClosedFileError
  | OpenFailed

subsection \<open>The container\<close>

type_synonym vec3 = "real \<times> real \<times> real"
type_synonym ivec3 = "int \<times> int \<times> int"

text \<open>The box descriptor \<^verbatim>\<open>[Lx, Ly, Lz, xy, xz, yz]\<close>: always six components.\<close>

type_synonym box6 = "real \<times> real \<times> real \<times> real \<times> real \<times> real"

record configuration_data =
  step :: int
  box :: box6

text \<open>
  \<open>N\<close> is the declared particle count; the three arrays are read from chunks of their
  own, so their lengths are not tied to \<open>N\<close> by the type.
\<close>

record particle_data =
  N :: int
  position :: "vec3 list"
  velocity :: "vec3 list"
  image_p :: "ivec3 list"

record snapshot =
  configuration :: configuration_data
  particles :: particle_data

record trajectory =
  frames :: "snapshot list"
  is_open :: bool

text \<open>
  \<^verbatim>\<open>trajectory[key]\<close> for an integer key, as the container library documents it: a
  negative key counts from the end, a key out of range raises \<^verbatim>\<open>IndexError\<close>, and
  any operation on a closed file raises the library's own error.
\<close>

definition getitem :: "trajectory \<Rightarrow> int \<Rightarrow> error + snapshot" where
  "getitem h key =
     (if \<not> is_open h then Inl ClosedFileError
      else
        let n = int (length (frames h));
            key1 = (if key < 0 then key + n else key)
        in if key1 \<ge> n \<or> key1 < 0 then Inl IndexError
           else Inr (frames h ! nat key1))"

definition len :: "trajectory \<Rightarrow> error + nat" where
  "len h = (if \<not> is_open h then Inl ClosedFileError else Inr (length (frames h)))"

text \<open>
  The file system as the reader sees it: which paths hold a trajectory, and a log of the
  file operations performed so far.
\<close>

datatype io_event = Open_rb string | Close_file

record world =
  files :: "string \<Rightarrow> snapshot list option"
  io_log :: "io_event list"

definition gsd_hoomd_open :: "world \<Rightarrow> string \<Rightarrow> (error + trajectory) \<times> world" where
  "gsd_hoomd_open w name =
     (let w1 = w\<lparr>io_log := io_log w @ [Open_rb name]\<rparr>
      in case files w name of
           None \<Rightarrow> (Inl OpenFailed, w1)
         | Some fs \<Rightarrow> (Inr \<lparr>frames = fs, is_open = True\<rparr>, w1))"

subsection \<open>The timestep\<close>

text \<open>
  Modelled from the spec: the generic \<^verbatim>\<open>Timestep\<close> of the base module, which is not in
  the file; the spec treats it as a record of named fields that the reader populates.
  These are the fields \<^verbatim>\<open>_read_frame\<close> writes. \<open>dimensions\<close> is the six-slot array
  itself: assigning a box copies the box into it, and an item assignment changes it in
  place. \<open>data_step\<close> is \<^verbatim>\<open>ts.data['step']\<close>. A field that a new timestep does not
  have yet is \<open>None\<close>.
\<close>

record timestep =
  frame :: int
  data_step :: "int option"
  dimensions :: "real list"
  tilt_factors :: "real list option"
  positions :: "vec3 list"
  velocities :: "vec3 list option"
  images :: "ivec3 list option"

text \<open>
  Modelled from the spec: the \<^verbatim>\<open>Timestep\<close> constructor, which is not in the file. It
  allocates a frame state sized for \<open>n\<close> particles, positioned before the first frame.
\<close>

definition new_Timestep :: "int \<Rightarrow> timestep" where
  "new_Timestep n =
     \<lparr>frame = - 1, data_step = None, dimensions = replicate 6 0, tilt_factors = None,
      positions = replicate (nat n) (0, 0, 0), velocities = None, images = None\<rparr>"

fun box_list :: "box6 \<Rightarrow> real list" where
  "box_list (lx, ly, lz, xy, xz, yz) = [lx, ly, lz, xy, xz, yz]"

text \<open>The Python slice \<^verbatim>\<open>xs[i:j]\<close> for \<open>0 \<le> i \<le> j\<close>.\<close>

definition slice :: "'a list \<Rightarrow> nat \<Rightarrow> nat \<Rightarrow> 'a list" where
  "slice xs i j = take (j - i) (drop i xs)"

subsection \<open>The reader\<close>

text \<open>
  \<open>p_file\<close> and \<open>p_frame\<close> are the attributes \<^verbatim>\<open>_file\<close> and \<^verbatim>\<open>_frame\<close>.
\<close>

record reader =
  filename :: string
  p_file :: trajectory
  p_frame :: int
  n_atoms :: int
  ts :: timestep

definition open_trajectory :: "world \<Rightarrow> reader \<Rightarrow> (error + unit) \<times> reader \<times> world" where
  "open_trajectory w self =
     (let self1 = self\<lparr>p_frame := - 1\<rparr>
      in case gsd_hoomd_open w (filename self1) of
           (Inl e, w1) \<Rightarrow> (Inl e, self1, w1)
         | (Inr h, w1) \<Rightarrow> (Inr (), self1\<lparr>p_file := h\<rparr>, w1))"

definition close :: "world \<Rightarrow> reader \<Rightarrow> (error + unit) \<times> reader \<times> world" where
  "close w self =
     (Inr (), self\<lparr>p_file := (p_file self)\<lparr>is_open := False\<rparr>\<rparr>,
      w\<lparr>io_log := io_log w @ [Close_file]\<rparr>)"

definition n_frames :: "reader \<Rightarrow> error + nat" where
  "n_frames self = len (p_file self)"

definition reopen :: "world \<Rightarrow> reader \<Rightarrow> (error + unit) \<times> reader \<times> world" where
  "reopen w self =
     (case close w self of
        (Inl e, self1, w1) \<Rightarrow> (Inl e, self1, w1)
      | (Inr u, self1, w1) \<Rightarrow> open_trajectory w1 self1)"

definition read_frame :: "reader \<Rightarrow> int \<Rightarrow> (error + timestep) \<times> reader" where
  "read_frame self k =
     (case getitem (p_file self) k of
        Inl IndexError \<Rightarrow> (Inl IOError, self)
      | Inl e \<Rightarrow> (Inl e, self)
      | Inr myframe \<Rightarrow>
          let self1 = self\<lparr>p_frame := k\<rparr>;
              ts1 = (ts self1)\<lparr>frame := k\<rparr>;
              ts2 = ts1\<lparr>data_step := Some (step (configuration myframe))\<rparr>;
              ts3 = ts2\<lparr>dimensions := box_list (box (configuration myframe))\<rparr>;
              ts4 = ts3\<lparr>tilt_factors := Some (slice (dimensions ts3) 3 6)\<rparr>;
              d = dimensions ts4;
              a1a2 = d ! 3 / sqrt (1 + (d ! 3)\<^sup>2);
              a1a3 = d ! 4 / sqrt (1 + (d ! 4)\<^sup>2 + (d ! 5)\<^sup>2);
              a2a3 = (d ! 3 * d ! 4 + d ! 5) /
                     (sqrt (1 + (d ! 3)\<^sup>2) * sqrt (1 + (d ! 4)\<^sup>2 + (d ! 5)\<^sup>2));
              a1a2 = arccos a1a2 * 180 / pi;
              a1a3 = arccos a1a3 * 180 / pi;
              a2a3 = arccos a2a3 * 180 / pi;
              ts5 = ts4\<lparr>dimensions := (dimensions ts4)[3 := a2a3]\<rparr>;
              ts6 = ts5\<lparr>dimensions := (dimensions ts5)[4 := a1a3]\<rparr>;
              ts7 = ts6\<lparr>dimensions := (dimensions ts6)[5 := a1a2]\<rparr>;
              frame_positions = position (particles myframe);
              n_atoms_now = int (length frame_positions)
          in if n_atoms_now \<noteq> n_atoms self1
             then (Inl (ValueError k n_atoms_now (n_atoms self1)), self1\<lparr>ts := ts7\<rparr>)
             else
               let ts8 = ts7\<lparr>positions := frame_positions\<rparr>;
                   ts9 = ts8\<lparr>images := Some (image_p (particles myframe))\<rparr>;
                   ts10 = ts9\<lparr>velocities := Some (velocity (particles myframe))\<rparr>
               in (Inr ts10, self1\<lparr>ts := ts10\<rparr>))"

definition read_next_timestep :: "reader \<Rightarrow> (error + timestep) \<times> reader" where
  "read_next_timestep self = read_frame self (p_frame self + 1)"

text \<open>
  The constructor. \<open>os_name\<close> is \<^verbatim>\<open>os.name\<close>. The attributes are set one after the other
  on an object that starts with none; the record starts with placeholders that are
  overwritten before anything reads them. \<^verbatim>\<open>self._file[0]\<close> is outside any
  \<^verbatim>\<open>try\<close>, so its \<^verbatim>\<open>IndexError\<close> leaves the constructor as it is.
\<close>

definition blank :: "string \<Rightarrow> reader" where
  "blank name =
     \<lparr>filename = name, p_file = \<lparr>frames = [], is_open = False\<rparr>, p_frame = - 1,
      n_atoms = 0, ts = new_Timestep 0\<rparr>"

definition GSDReader_init :: "world \<Rightarrow> string \<Rightarrow> string \<Rightarrow> (error + reader) \<times> world" where
  "GSDReader_init w os_name name =
     (if os_name = ''nt'' then (Inl NotImplementedError, w)
      else
        case open_trajectory w (blank name) of
          (Inl e, self1, w1) \<Rightarrow> (Inl e, w1)
        | (Inr u, self1, w1) \<Rightarrow>
            (case getitem (p_file self1) 0 of
               Inl e \<Rightarrow> (Inl e, w1)
             | Inr frame0 \<Rightarrow>
                 let self2 = self1\<lparr>n_atoms := N (particles frame0)\<rparr>;
                     self3 = self2\<lparr>ts := new_Timestep (n_atoms self2)\<rparr>
                 in (case read_next_timestep self3 of
                       (Inl e, self4) \<Rightarrow> (Inl e, w1)
                     | (Inr t, self4) \<Rightarrow> (Inr self4, w1))))"

text \<open>
  The reader after a caller has made \<open>k\<close> consecutive calls of
  \<^verbatim>\<open>_read_next_timestep\<close> on it. A call that raises leaves the reader to the next call
  as the raise left it.
\<close>

primrec read_next_times :: "nat \<Rightarrow> reader \<Rightarrow> reader" where
  "read_next_times 0 self = self"
| "read_next_times (Suc k) self = snd (read_next_timestep (read_next_times k self))"

subsection \<open>The angles as the specification gives them\<close>

text \<open>
  The documented formulas for the unit-cell angles, in degrees, from the tilt factors.
\<close>

definition degrees :: "real \<Rightarrow> real" where
  "degrees x = x * 180 / pi"

definition cos_gamma :: "real \<Rightarrow> real \<Rightarrow> real \<Rightarrow> real" where
  "cos_gamma xy xz yz = xy / sqrt (1 + xy\<^sup>2)"

definition cos_beta :: "real \<Rightarrow> real \<Rightarrow> real \<Rightarrow> real" where
  "cos_beta xy xz yz = xz / sqrt (1 + xz\<^sup>2 + yz\<^sup>2)"

definition cos_alpha :: "real \<Rightarrow> real \<Rightarrow> real \<Rightarrow> real" where
  "cos_alpha xy xz yz = (xy * xz + yz) / (sqrt (1 + xy\<^sup>2) * sqrt (1 + xz\<^sup>2 + yz\<^sup>2))"

definition spec_alpha :: "real \<Rightarrow> real \<Rightarrow> real \<Rightarrow> real" where
  "spec_alpha xy xz yz = degrees (arccos (cos_alpha xy xz yz))"

definition spec_beta :: "real \<Rightarrow> real \<Rightarrow> real \<Rightarrow> real" where
  "spec_beta xy xz yz = degrees (arccos (cos_beta xy xz yz))"

definition spec_gamma :: "real \<Rightarrow> real \<Rightarrow> real \<Rightarrow> real" where
  "spec_gamma xy xz yz = degrees (arccos (cos_gamma xy xz yz))"

subsection \<open>A small trajectory\<close>

text \<open>
  Five frames for a reference count of two particles: two well-formed frames, one with a
  single particle, one that declares 99 particles over two positions, and one that
  declares two particles over one position. \<open>ex_reader\<close> is the reader as the
  constructor leaves it on this file; \<open>ex_fresh\<close> is a reader just opened on the first
  two frames.
\<close>

definition ex_frame :: "int \<Rightarrow> real \<Rightarrow> int \<Rightarrow> nat \<Rightarrow> snapshot" where
  "ex_frame s t n m =
     \<lparr>configuration = \<lparr>step = s, box = (10, 10, 10, t, 0, 0)\<rparr>,
      particles = \<lparr>N = n, position = replicate m (0, 0, 0),
                   velocity = replicate m (1, 0, 0), image_p = replicate m (0, 0, 0)\<rparr>\<rparr>"

definition ex_frames :: "snapshot list" where
  "ex_frames =
     [ex_frame 0 0 2 2, ex_frame 100 1 2 2, ex_frame 200 1 1 1, ex_frame 300 0 99 2,
      ex_frame 400 0 2 1]"

definition ex_world :: world where
  "ex_world = \<lparr>files = (\<lambda>p. if p = ''traj.gsd'' then Some ex_frames else None), io_log = []\<rparr>"

definition ex_reader :: reader where
  "ex_reader =
     \<lparr>filename = ''traj.gsd'', p_file = \<lparr>frames = ex_frames, is_open = True\<rparr>, p_frame = 0,
      n_atoms = 2,
      ts = \<lparr>frame = 0, data_step = Some 0, dimensions = [10, 10, 10, 90, 90, 90],
            tilt_factors = Some [0, 0, 0], positions = replicate 2 (0, 0, 0),
            velocities = Some (replicate 2 (1, 0, 0)), images = Some (replicate 2 (0, 0, 0))\<rparr>\<rparr>"

definition ex_fresh :: reader where
  "ex_fresh =
     \<lparr>filename = ''short.gsd'',
      p_file = \<lparr>frames = [ex_frame 0 0 2 2, ex_frame 100 1 2 2], is_open = True\<rparr>,
      p_frame = - 1, n_atoms = 2, ts = new_Timestep 2\<rparr>"

section \<open>Properties\<close>

subsection \<open>Looking a frame up\<close>

lemma getitem_in_range:
  "is_open h \<Longrightarrow> 0 \<le> i \<Longrightarrow> i < int (length (frames h)) \<Longrightarrow> getitem h i = Inr (frames h ! nat i)"
  by (simp add: getitem_def)

lemma getitem_out_of_range:
  "is_open h \<Longrightarrow> i \<ge> int (length (frames h)) \<or> i < - int (length (frames h)) \<Longrightarrow>
   getitem h i = Inl IndexError"
  by (auto simp: getitem_def Let_def)

lemma getitem_closed: "\<not> is_open h \<Longrightarrow> getitem h i = Inl ClosedFileError"
  by (simp add: getitem_def)

lemma read_frame_found:
  assumes "getitem (p_file self) k = Inr f"
    and "box (configuration f) = (lx, ly, lz, xy, xz, yz)"
  shows "read_frame self k =
    (if int (length (position (particles f))) \<noteq> n_atoms self
     then (Inl (ValueError k (int (length (position (particles f)))) (n_atoms self)),
           self\<lparr>p_frame := k,
                ts := (ts self)\<lparr>frame := k,
                  data_step := Some (step (configuration f)),
                  dimensions := [lx, ly, lz, spec_alpha xy xz yz, spec_beta xy xz yz,
                                 spec_gamma xy xz yz],
                  tilt_factors := Some [xy, xz, yz]\<rparr>\<rparr>)
     else (Inr ((ts self)\<lparr>frame := k,
                  data_step := Some (step (configuration f)),
                  dimensions := [lx, ly, lz, spec_alpha xy xz yz, spec_beta xy xz yz,
                                 spec_gamma xy xz yz],
                  tilt_factors := Some [xy, xz, yz],
                  positions := position (particles f),
                  images := Some (image_p (particles f)),
                  velocities := Some (velocity (particles f))\<rparr>),
           self\<lparr>p_frame := k,
                ts := (ts self)\<lparr>frame := k,
                  data_step := Some (step (configuration f)),
                  dimensions := [lx, ly, lz, spec_alpha xy xz yz, spec_beta xy xz yz,
                                 spec_gamma xy xz yz],
                  tilt_factors := Some [xy, xz, yz],
                  positions := position (particles f),
                  images := Some (image_p (particles f)),
                  velocities := Some (velocity (particles f))\<rparr>\<rparr>))"
  using assms
  by (simp add: read_frame_def Let_def slice_def spec_alpha_def spec_beta_def spec_gamma_def
      degrees_def cos_alpha_def cos_beta_def cos_gamma_def)

lemma read_frame_index_error:
  "getitem (p_file self) k = Inl IndexError \<Longrightarrow> read_frame self k = (Inl IOError, self)"
  by (simp add: read_frame_def)

lemma read_frame_never_IndexError: "fst (read_frame self k) \<noteq> Inl IndexError"
  by (auto simp: read_frame_def Let_def getitem_def split: sum.splits error.splits)

lemma n_frames_open:
  "is_open (p_file self) \<Longrightarrow> n_frames self = Inr (length (frames (p_file self)))"
  by (simp add: n_frames_def len_def)

text \<open>The constructor on the small trajectory.\<close>

lemma init_example:
  "GSDReader_init ex_world ''posix'' ''traj.gsd'' =
     (Inr ex_reader, ex_world\<lparr>io_log := [Open_rb ''traj.gsd'']\<rparr>)"
  by (simp add: GSDReader_init_def open_trajectory_def gsd_hoomd_open_def blank_def
      ex_world_def ex_reader_def ex_frames_def ex_frame_def getitem_def read_next_timestep_def
      read_frame_def new_Timestep_def Let_def slice_def)

subsection \<open>Box geometry\<close>

text \<open>
  Each cosine is a component of a vector over that vector's norm, so it lies in
  \<open>[- 1, 1]\<close>, where \<^const>\<open>arccos\<close> is the inverse of \<^const>\<open>cos\<close>: the three
  angles lie between 0 and 180 degrees and have the documented cosines.
\<close>

lemma abs_le_sqrt: "a\<^sup>2 \<le> b \<Longrightarrow> \<bar>a\<bar> \<le> sqrt b" for a b :: real
  using real_sqrt_le_mono [of "a\<^sup>2" b] by simp

lemma quotient_bounds:
  fixes a b :: real
  assumes "\<bar>a\<bar> \<le> b" and "0 < b"
  shows "- 1 \<le> a / b \<and> a / b \<le> 1"
  using assms by (simp add: pos_le_divide_eq pos_divide_le_eq abs_le_iff)

lemma cos_gamma_bounds: "- 1 \<le> cos_gamma xy xz yz \<and> cos_gamma xy xz yz \<le> 1"
  unfolding cos_gamma_def
  by (rule quotient_bounds) (simp_all add: abs_le_sqrt add_pos_nonneg)

lemma cos_beta_bounds: "- 1 \<le> cos_beta xy xz yz \<and> cos_beta xy xz yz \<le> 1"
  unfolding cos_beta_def
  by (rule quotient_bounds) (simp_all add: abs_le_sqrt add_pos_nonneg)

lemma cos_alpha_bounds: "- 1 \<le> cos_alpha xy xz yz \<and> cos_alpha xy xz yz \<le> 1"
proof -
  have "(1 + xy\<^sup>2) * (1 + xz\<^sup>2 + yz\<^sup>2) - (xy * xz + yz)\<^sup>2 = 1 + xy\<^sup>2 + (xz - xy * yz)\<^sup>2"
    by (simp add: power2_eq_square algebra_simps)
  then have "(xy * xz + yz)\<^sup>2 \<le> (1 + xy\<^sup>2) * (1 + xz\<^sup>2 + yz\<^sup>2)"
    using zero_le_power2 [of xy] zero_le_power2 [of "xz - xy * yz"] by linarith
  then have "\<bar>xy * xz + yz\<bar> \<le> sqrt ((1 + xy\<^sup>2) * (1 + xz\<^sup>2 + yz\<^sup>2))"
    by (rule abs_le_sqrt)
  then have "\<bar>xy * xz + yz\<bar> \<le> sqrt (1 + xy\<^sup>2) * sqrt (1 + xz\<^sup>2 + yz\<^sup>2)"
    by (simp add: real_sqrt_mult)
  moreover have "0 < sqrt (1 + xy\<^sup>2) * sqrt (1 + xz\<^sup>2 + yz\<^sup>2)"
    by (simp add: add_pos_nonneg)
  ultimately show ?thesis
    unfolding cos_alpha_def by (rule quotient_bounds)
qed

lemma degrees_arccos_bounds:
  "- 1 \<le> c \<Longrightarrow> c \<le> 1 \<Longrightarrow> 0 \<le> degrees (arccos c) \<and> degrees (arccos c) \<le> 180"
  using arccos_lbound [of c] arccos_ubound [of c]
  by (simp add: degrees_def pos_divide_le_eq)

lemma spec_angles_bounds:
  "0 \<le> spec_alpha xy xz yz \<and> spec_alpha xy xz yz \<le> 180"
  "0 \<le> spec_beta xy xz yz \<and> spec_beta xy xz yz \<le> 180"
  "0 \<le> spec_gamma xy xz yz \<and> spec_gamma xy xz yz \<le> 180"
  unfolding spec_alpha_def spec_beta_def spec_gamma_def
  using cos_alpha_bounds [of xy xz yz] cos_beta_bounds [of xy xz yz] cos_gamma_bounds [of xy xz yz]
  by (simp_all add: degrees_arccos_bounds)

lemma spec_angles_cos:
  "cos (spec_alpha xy xz yz * pi / 180) = cos_alpha xy xz yz"
  "cos (spec_beta xy xz yz * pi / 180) = cos_beta xy xz yz"
  "cos (spec_gamma xy xz yz * pi / 180) = cos_gamma xy xz yz"
  using cos_alpha_bounds [of xy xz yz] cos_beta_bounds [of xy xz yz] cos_gamma_bounds [of xy xz yz]
  by (simp_all add: spec_alpha_def spec_beta_def spec_gamma_def degrees_def cos_arccos)

text \<open>
  The orthogonal box has three right angles; the tilt \<open>(1, 0, 0)\<close> gives
  \<open>gamma = 45\<close> and \<open>alpha = beta = 90\<close>.
\<close>

lemma spec_angles_orthogonal:
  "spec_alpha 0 0 0 = 90" "spec_beta 0 0 0 = 90" "spec_gamma 0 0 0 = 90"
  by (simp_all add: spec_alpha_def spec_beta_def spec_gamma_def degrees_def
      cos_alpha_def cos_beta_def cos_gamma_def)

lemma arccos_inv_sqrt2: "arccos (1 / sqrt 2) = pi / 4"
proof -
  have "cos (pi / 4) = 1 / sqrt 2"
    by (simp add: cos_45 real_div_sqrt field_simps)
  moreover have "arccos (cos (pi / 4)) = pi / 4"
    by (rule arccos_cos) simp_all
  ultimately show ?thesis by simp
qed

lemma spec_angles_known_case:
  "spec_alpha 1 0 0 = 90" "spec_beta 1 0 0 = 90" "spec_gamma 1 0 0 = 45"
  by (simp_all add: spec_alpha_def spec_beta_def spec_gamma_def degrees_def
      cos_alpha_def cos_beta_def cos_gamma_def arccos_inv_sqrt2)

text \<open>
  C1. For every frame read, after the box geometry decode, positions 4 to 6 of the box
  dimensions hold the angles alpha, beta, gamma in degrees, in that order, computed from
  the raw tilt factors \<open>xy\<close>, \<open>xz\<close>, \<open>yz\<close> by the documented formulas; the three edge
  lengths stay in positions 1 to 3. This holds of the reader's timestep whether or not
  the particle count check that follows passes, and of the timestep a successful read
  returns.
\<close>
theorem C1_box_angles:
  assumes "getitem (p_file self) i = Inr f"
    and "box (configuration f) = (lx, ly, lz, xy, xz, yz)"
  shows "dimensions (ts (snd (read_frame self i))) =
           [lx, ly, lz, spec_alpha xy xz yz, spec_beta xy xz yz, spec_gamma xy xz yz] \<and>
         (\<forall>t. fst (read_frame self i) = Inr t \<longrightarrow>
            dimensions t =
              [lx, ly, lz, spec_alpha xy xz yz, spec_beta xy xz yz, spec_gamma xy xz yz])"
  by (auto simp: read_frame_found [OF assms] split: if_splits)

theorem C1_box_angles_witness:
  "getitem (p_file ex_reader) 1 = Inr (ex_frame 100 1 2 2) \<and>
   box (configuration (ex_frame 100 1 2 2)) = (10, 10, 10, 1, 0, 0) \<and>
   fst (read_frame ex_reader 1) \<noteq> Inl IOError \<and>
   dimensions (ts (snd (read_frame ex_reader 1))) = [10, 10, 10, 90, 90, 45]"
proof -
  have g: "getitem (p_file ex_reader) 1 = Inr (ex_frame 100 1 2 2)"
    by (simp add: getitem_def ex_reader_def ex_frames_def)
  have b: "box (configuration (ex_frame 100 1 2 2)) = (10, 10, 10, 1, 0, 0)"
    by (simp add: ex_frame_def)
  have r: "fst (read_frame ex_reader 1) \<noteq> Inl IOError"
    by (simp add: read_frame_found [OF g b])
  from C1_box_angles [OF g b] g b r show ?thesis
    by (simp add: spec_angles_known_case)
qed


subsection \<open>Particle count\<close>

text \<open>
  C2. When the container yields a frame at index \<open>i\<close> and the particle count the reader
  observes for it (the length of its position array) differs from the reference count
  \<open>n_atoms\<close>, the read fails with the \<^verbatim>\<open>ValueError\<close> carrying the index, the observed
  count and the expected count, and the positions, velocities and images of the timestep
  are what they were before the call.
\<close>
theorem C2_topology_mismatch:
  assumes "getitem (p_file self) i = Inr f"
    and "int (length (position (particles f))) \<noteq> n_atoms self"
  shows "fst (read_frame self i) =
           Inl (ValueError i (int (length (position (particles f)))) (n_atoms self)) \<and>
         positions (ts (snd (read_frame self i))) = positions (ts self) \<and>
         velocities (ts (snd (read_frame self i))) = velocities (ts self) \<and>
         images (ts (snd (read_frame self i))) = images (ts self)"
proof -
  obtain lx ly lz xy xz yz where b: "box (configuration f) = (lx, ly, lz, xy, xz, yz)"
    by (metis prod_cases6)
  show ?thesis
    using assms(2) by (simp add: read_frame_found [OF assms(1) b])
qed

theorem C2_topology_mismatch_witness:
  "getitem (p_file ex_reader) 2 = Inr (ex_frame 200 1 1 1) \<and>
   int (length (position (particles (ex_frame 200 1 1 1)))) = 1 \<and>
   n_atoms ex_reader = 2 \<and>
   fst (read_frame ex_reader 2) = Inl (ValueError 2 1 2) \<and>
   positions (ts (snd (read_frame ex_reader 2))) = [(0, 0, 0), (0, 0, 0)] \<and>
   velocities (ts (snd (read_frame ex_reader 2))) = Some [(1, 0, 0), (1, 0, 0)] \<and>
   images (ts (snd (read_frame ex_reader 2))) = Some [(0, 0, 0), (0, 0, 0)]"
proof -
  have g: "getitem (p_file ex_reader) 2 = Inr (ex_frame 200 1 1 1)"
    by (simp add: getitem_def ex_reader_def ex_frames_def)
  have n: "int (length (position (particles (ex_frame 200 1 1 1)))) \<noteq> n_atoms ex_reader"
    by (simp add: ex_frame_def ex_reader_def)
  have e: "int (length (position (particles (ex_frame 200 1 1 1)))) = 1"
      "n_atoms ex_reader = 2"
      "positions (ts ex_reader) = [(0, 0, 0), (0, 0, 0)]"
      "velocities (ts ex_reader) = Some [(1, 0, 0), (1, 0, 0)]"
      "images (ts ex_reader) = Some [(0, 0, 0), (0, 0, 0)]"
    by (simp_all add: ex_frame_def ex_reader_def numeral_2_eq_2)
  from C2_topology_mismatch [OF g n] g e show ?thesis
    by simp
qed

subsection \<open>End of data\<close>

text \<open>
  C3. On an open container of \<open>n\<close> frames (\<open>n\<close> is what \<open>n_frames\<close> returns), every index \<open>i \<ge> n\<close> and every index
  \<open>i < - n\<close> makes the read fail with \<^verbatim>\<open>IOError\<close>; the container's \<^verbatim>\<open>IndexError\<close> is
  not what the caller sees, and the reader is left as it was.
\<close>
theorem C3_end_of_data:
  assumes "is_open (p_file self)"
    and "i \<ge> int (length (frames (p_file self))) \<or> i < - int (length (frames (p_file self)))"
  shows "fst (read_frame self i) = Inl IOError \<and> fst (read_frame self i) \<noteq> Inl IndexError \<and>
         snd (read_frame self i) = self"
  using assms by (simp add: read_frame_index_error getitem_out_of_range)

theorem C3_end_of_data_witness:
  "is_open (p_file ex_reader) \<and> int (length (frames (p_file ex_reader))) = 5 \<and>
   fst (read_frame ex_reader 5) = Inl IOError \<and>
   fst (read_frame ex_reader 7) = Inl IOError \<and>
   fst (read_frame ex_reader (- 6)) = Inl IOError \<and>
   snd (read_frame ex_reader 5) = ex_reader"
proof -
  have o: "is_open (p_file ex_reader)" and l: "int (length (frames (p_file ex_reader))) = 5"
    by (simp_all add: ex_reader_def ex_frames_def)
  have "fst (read_frame ex_reader 5) = Inl IOError \<and> snd (read_frame ex_reader 5) = ex_reader"
    using C3_end_of_data [OF o, of 5] l by simp
  moreover have "fst (read_frame ex_reader 7) = Inl IOError"
    using C3_end_of_data [OF o, of 7] l by simp
  moreover have "fst (read_frame ex_reader (- 6)) = Inl IOError"
    using C3_end_of_data [OF o, of "- 6"] l by simp
  ultimately show ?thesis using o l by simp
qed

subsection \<open>Tilt factors\<close>

text \<open>
  C4. For every frame read, the tilt factors of the timestep are the raw components
  \<open>xy\<close>, \<open>xz\<close>, \<open>yz\<close> of the container's box descriptor, taken before the angles
  overwrite them.
\<close>
theorem C4_tilt_factors_raw:
  assumes "getitem (p_file self) i = Inr f"
    and "box (configuration f) = (lx, ly, lz, xy, xz, yz)"
  shows "tilt_factors (ts (snd (read_frame self i))) = Some [xy, xz, yz] \<and>
         (\<forall>t. fst (read_frame self i) = Inr t \<longrightarrow> tilt_factors t = Some [xy, xz, yz])"
  by (auto simp: read_frame_found [OF assms] split: if_splits)

theorem C4_tilt_factors_raw_witness:
  "getitem (p_file ex_reader) 1 = Inr (ex_frame 100 1 2 2) \<and>
   box (configuration (ex_frame 100 1 2 2)) = (10, 10, 10, 1, 0, 0) \<and>
   tilt_factors (ts (snd (read_frame ex_reader 1))) = Some [1, 0, 0] \<and>
   drop 3 (dimensions (ts (snd (read_frame ex_reader 1)))) = [90, 90, 45]"
proof -
  have g: "getitem (p_file ex_reader) 1 = Inr (ex_frame 100 1 2 2)"
    by (simp add: getitem_def ex_reader_def ex_frames_def)
  have b: "box (configuration (ex_frame 100 1 2 2)) = (10, 10, 10, 1, 0, 0)"
    by (simp add: ex_frame_def)
  have d: "drop 3 (dimensions (ts (snd (read_frame ex_reader 1)))) = [90, 90, 45]"
    by (simp add: read_frame_found [OF g b] spec_angles_known_case)
  from C4_tilt_factors_raw [OF g b] g b d show ?thesis
    by simp
qed

subsection \<open>Frame index\<close>

text \<open>
  C6. For every index \<open>i\<close> with \<open>0 \<le> i < n\<close> on an open container of \<open>n\<close> frames, the
  read sets both the cursor \<^verbatim>\<open>_frame\<close> and the timestep's frame to \<open>i\<close>; a successful
  read returns the reader's timestep, whose frame is \<open>i\<close>; and the read is successful
  when the frame's particle count is the reference count.
\<close>
theorem C6_frame_index:
  assumes "is_open (p_file self)" and "0 \<le> i" and "i < int (length (frames (p_file self)))"
  shows "p_frame (snd (read_frame self i)) = i \<and>
         frame (ts (snd (read_frame self i))) = i \<and>
         (\<forall>t. fst (read_frame self i) = Inr t \<longrightarrow> frame t = i \<and> t = ts (snd (read_frame self i))) \<and>
         (int (length (position (particles (frames (p_file self) ! nat i)))) = n_atoms self \<longrightarrow>
            (\<exists>t. fst (read_frame self i) = Inr t))"
proof -
  obtain lx ly lz xy xz yz
    where b: "box (configuration (frames (p_file self) ! nat i)) = (lx, ly, lz, xy, xz, yz)"
    by (metis prod_cases6)
  show ?thesis
    by (auto simp: read_frame_found [OF getitem_in_range [OF assms] b] split: if_splits)
qed

theorem C6_frame_index_witness:
  "is_open (p_file ex_reader) \<and> int (length (frames (p_file ex_reader))) = 5 \<and>
   p_frame (snd (read_frame ex_reader 1)) = 1 \<and>
   frame (ts (snd (read_frame ex_reader 1))) = 1 \<and>
   (\<exists>t. fst (read_frame ex_reader 1) = Inr t \<and> frame t = 1)"
proof -
  have o: "is_open (p_file ex_reader)" and l: "int (length (frames (p_file ex_reader))) = 5"
    by (simp_all add: ex_reader_def ex_frames_def)
  have m: "int (length (position (particles (frames (p_file ex_reader) ! nat 1)))) = n_atoms ex_reader"
    by (simp add: ex_reader_def ex_frames_def ex_frame_def)
  have "(0::int) \<le> 1" and "1 < int (length (frames (p_file ex_reader)))"
    using l by simp_all
  from C6_frame_index [OF o this] m o l show ?thesis
    by auto
qed

subsection \<open>Sequential reading\<close>

lemma read_frame_p_file: "p_file (snd (read_frame self k)) = p_file self"
  by (simp add: read_frame_def Let_def split: sum.splits error.splits)

lemma read_frame_n_atoms: "n_atoms (snd (read_frame self k)) = n_atoms self"
  by (simp add: read_frame_def Let_def split: sum.splits error.splits)

lemma read_frame_cursor:
  "getitem (p_file self) k = Inr f \<Longrightarrow>
   p_frame (snd (read_frame self k)) = k \<and> frame (ts (snd (read_frame self k))) = k"
  by (simp add: read_frame_def Let_def)

lemma read_next_times_state:
  assumes "is_open (p_file self)" and "p_frame self = - 1"
  shows "k \<le> length (frames (p_file self)) \<Longrightarrow>
         p_frame (read_next_times k self) = int k - 1 \<and>
         p_file (read_next_times k self) = p_file self \<and>
         n_atoms (read_next_times k self) = n_atoms self"
proof (induction k)
  case 0
  with assms show ?case by simp
next
  case (Suc k)
  let ?s = "read_next_times k self"
  from Suc have st: "p_frame ?s = int k - 1" "p_file ?s = p_file self"
    "n_atoms ?s = n_atoms self" by simp_all
  from Suc.prems assms(1) st have "getitem (p_file ?s) (int k) = Inr (frames (p_file self) ! k)"
    by (simp add: getitem_in_range)
  then have "p_frame (snd (read_frame ?s (int k))) = int k"
    by (simp add: read_frame_cursor)
  with st show ?case
    by (simp add: read_next_timestep_def read_frame_p_file read_frame_n_atoms)
qed

text \<open>
  C5. \<^verbatim>\<open>_read_next_timestep\<close> is \<^verbatim>\<open>_read_frame\<close> at the cursor plus one. Consequently,
  on a reader just opened (open container of \<open>n\<close> frames, cursor \<open>- 1\<close>), consecutive
  calls visit the frames \<open>0, \<dots>, n - 1\<close> once each and in increasing order: for every
  \<open>k < n\<close>, the call made after \<open>k\<close> calls is the read of index \<open>k\<close>, it finds frame
  \<open>k\<close> of the container, it leaves the cursor and the timestep's frame at \<open>k\<close>, and it
  does not end with \<^verbatim>\<open>IOError\<close>. The call made after these \<open>n\<close> calls fails with
  \<^verbatim>\<open>IOError\<close>. When every frame has the reference particle count, each of the \<open>n\<close>
  calls returns the timestep of its frame.
\<close>
theorem C5_sequential_reads:
  assumes "is_open (p_file self)" and "p_frame self = - 1"
    and "n = length (frames (p_file self))"
  shows "(\<forall>s. read_next_timestep s = read_frame s (p_frame s + 1)) \<and>
         (\<forall>k<n. read_next_timestep (read_next_times k self) =
                   read_frame (read_next_times k self) (int k) \<and>
                 getitem (p_file (read_next_times k self)) (int k) =
                   Inr (frames (p_file self) ! k) \<and>
                 p_frame (read_next_times (Suc k) self) = int k \<and>
                 frame (ts (read_next_times (Suc k) self)) = int k \<and>
                 fst (read_next_timestep (read_next_times k self)) \<noteq> Inl IOError) \<and>
         fst (read_next_timestep (read_next_times n self)) = Inl IOError \<and>
         ((\<forall>k<n. int (length (position (particles (frames (p_file self) ! k)))) = n_atoms self) \<longrightarrow>
          (\<forall>k<n. \<exists>t. fst (read_next_timestep (read_next_times k self)) = Inr t \<and>
                      frame t = int k \<and>
                      positions t = position (particles (frames (p_file self) ! k))))"
proof -
  have a: "\<forall>s. read_next_timestep s = read_frame s (p_frame s + 1)"
    by (simp add: read_next_timestep_def)
  have step: "read_next_timestep (read_next_times k self) =
                read_frame (read_next_times k self) (int k) \<and>
              getitem (p_file (read_next_times k self)) (int k) =
                Inr (frames (p_file self) ! k) \<and>
              n_atoms (read_next_times k self) = n_atoms self"
    if "k < n" for k
  proof -
    from that assms(3) have "k \<le> length (frames (p_file self))" by simp
    from read_next_times_state [OF assms(1,2) this] that assms(1,3) show ?thesis
      by (simp add: read_next_timestep_def getitem_in_range)
  qed
  have b: "p_frame (read_next_times (Suc k) self) = int k \<and>
           frame (ts (read_next_times (Suc k) self)) = int k \<and>
           fst (read_next_timestep (read_next_times k self)) \<noteq> Inl IOError"
    if "k < n" for k
  proof -
    obtain lx ly lz xy xz yz
      where bx: "box (configuration (frames (p_file self) ! k)) = (lx, ly, lz, xy, xz, yz)"
      by (metis prod_cases6)
    from step [OF that] have g: "getitem (p_file (read_next_times k self)) (int k) =
        Inr (frames (p_file self) ! k)" and r: "read_next_timestep (read_next_times k self) =
                read_frame (read_next_times k self) (int k)"
      by simp_all
    show ?thesis
      by (simp add: r read_frame_found [OF g bx])
  qed
  have c: "fst (read_next_timestep (read_next_times n self)) = Inl IOError"
  proof -
    from read_next_times_state [OF assms(1,2), of n] assms(3)
    have "p_frame (read_next_times n self) = int n - 1"
      and "p_file (read_next_times n self) = p_file self" by simp_all
    with assms(1,3) show ?thesis
      by (simp add: read_next_timestep_def read_frame_index_error getitem_out_of_range)
  qed
  have d: "\<exists>t. fst (read_next_timestep (read_next_times k self)) = Inr t \<and>
                frame t = int k \<and>
                positions t = position (particles (frames (p_file self) ! k))"
    if "k < n" and "int (length (position (particles (frames (p_file self) ! k)))) = n_atoms self"
    for k
  proof -
    obtain lx ly lz xy xz yz
      where bx: "box (configuration (frames (p_file self) ! k)) = (lx, ly, lz, xy, xz, yz)"
      by (metis prod_cases6)
    from step [OF that(1)] have g: "getitem (p_file (read_next_times k self)) (int k) =
        Inr (frames (p_file self) ! k)" and r: "read_next_timestep (read_next_times k self) =
                read_frame (read_next_times k self) (int k)"
      and m: "n_atoms (read_next_times k self) = n_atoms self"
      by simp_all
    show ?thesis
      using that(2) by (simp add: r m read_frame_found [OF g bx])
  qed
  from a step b c d show ?thesis by simp
qed


theorem C5_sequential_reads_witness:
  "is_open (p_file ex_fresh) \<and> p_frame ex_fresh = - 1 \<and>
   length (frames (p_file ex_fresh)) = 2 \<and>
   p_frame (read_next_times (Suc 0) ex_fresh) = 0 \<and>
   p_frame (read_next_times (Suc (Suc 0)) ex_fresh) = 1 \<and>
   (\<exists>t. fst (read_next_timestep (read_next_times 0 ex_fresh)) = Inr t \<and> frame t = 0) \<and>
   (\<exists>t. fst (read_next_timestep (read_next_times (Suc 0) ex_fresh)) = Inr t \<and> frame t = 1) \<and>
   fst (read_next_timestep (read_next_times 2 ex_fresh)) = Inl IOError"
proof -
  have o: "is_open (p_file ex_fresh)" and c: "p_frame ex_fresh = - 1"
    and l: "2 = length (frames (p_file ex_fresh))"
    by (simp_all add: ex_fresh_def)
  have m: "\<forall>k<2. int (length (position (particles (frames (p_file ex_fresh) ! k)))) =
             n_atoms ex_fresh"
    by (simp add: ex_fresh_def ex_frame_def less_2_cases_iff)
  note t = C5_sequential_reads [OF o c l]
  from t have p: "p_frame (read_next_times (Suc k) ex_fresh) = int k" if "k < 2" for k
    using that by blast
  from t have e: "fst (read_next_timestep (read_next_times 2 ex_fresh)) = Inl IOError"
    by blast
  from t m
  have r: "\<exists>t. fst (read_next_timestep (read_next_times k ex_fresh)) = Inr t \<and> frame t = int k"
    if "k < 2" for k
    using that by blast
  have p0: "p_frame (read_next_times (Suc 0) ex_fresh) = 0"
    and p1: "p_frame (read_next_times (Suc (Suc 0)) ex_fresh) = 1"
    using p [of 0] p [of "Suc 0"] by simp_all
  have r0: "\<exists>t. fst (read_next_timestep (read_next_times 0 ex_fresh)) = Inr t \<and> frame t = 0"
    and r1: "\<exists>t. fst (read_next_timestep (read_next_times (Suc 0) ex_fresh)) = Inr t \<and>
                  frame t = 1"
    using r [of 0] r [of "Suc 0"] by simp_all
  from o c l [symmetric] p0 p1 r0 r1 e show ?thesis
    by blast
qed

subsection \<open>Reopening\<close>

lemma open_trajectory_found:
  "files w (filename self) = Some fs \<Longrightarrow>
   open_trajectory w self =
     (Inr (), self\<lparr>p_frame := - 1, p_file := \<lparr>frames = fs, is_open = True\<rparr>\<rparr>,
      w\<lparr>io_log := io_log w @ [Open_rb (filename self)]\<rparr>)"
  by (simp add: open_trajectory_def gsd_hoomd_open_def Let_def)

lemma reopen_eq:
  "reopen w self =
     open_trajectory (w\<lparr>io_log := io_log w @ [Close_file]\<rparr>)
       (self\<lparr>p_file := (p_file self)\<lparr>is_open := False\<rparr>\<rparr>)"
  by (simp add: reopen_def close_def)

lemma reopen_cursor: "p_frame (fst (snd (reopen w self))) = - 1"
  by (simp add: reopen_eq open_trajectory_def gsd_hoomd_open_def Let_def split: option.splits)

lemma reopen_found:
  "files w (filename self) = Some fs \<Longrightarrow>
   reopen w self =
     (Inr (), self\<lparr>p_frame := - 1, p_file := \<lparr>frames = fs, is_open = True\<rparr>\<rparr>,
      w\<lparr>io_log := io_log w @ [Close_file, Open_rb (filename self)]\<rparr>)"
  by (simp add: reopen_eq open_trajectory_def gsd_hoomd_open_def Let_def)

text \<open>
  C7. Reopening (close, then open) leaves the cursor at \<open>- 1\<close>, whatever it was before.
  When the file still holds a trajectory with a first frame, the reopen succeeds and the
  next \<^verbatim>\<open>_read_next_timestep\<close> is the read of index \<open>0\<close>: it finds the first frame,
  and leaves the cursor and the timestep at frame \<open>0\<close> with that frame's step.
\<close>
theorem C7_reopen_resets_cursor:
  "p_frame (fst (snd (reopen w self))) = - 1 \<and>
   (files w (filename self) = Some (f0 # fs) \<longrightarrow>
      fst (reopen w self) = Inr () \<and>
      read_next_timestep (fst (snd (reopen w self))) =
        read_frame (fst (snd (reopen w self))) 0 \<and>
      getitem (p_file (fst (snd (reopen w self)))) 0 = Inr f0 \<and>
      p_frame (snd (read_next_timestep (fst (snd (reopen w self))))) = 0 \<and>
      frame (ts (snd (read_next_timestep (fst (snd (reopen w self)))))) = 0 \<and>
      data_step (ts (snd (read_next_timestep (fst (snd (reopen w self)))))) =
        Some (step (configuration f0)))"
proof -
  have "fst (reopen w self) = Inr () \<and>
      read_next_timestep (fst (snd (reopen w self))) =
        read_frame (fst (snd (reopen w self))) 0 \<and>
      getitem (p_file (fst (snd (reopen w self)))) 0 = Inr f0 \<and>
      p_frame (snd (read_next_timestep (fst (snd (reopen w self))))) = 0 \<and>
      frame (ts (snd (read_next_timestep (fst (snd (reopen w self)))))) = 0 \<and>
      data_step (ts (snd (read_next_timestep (fst (snd (reopen w self)))))) =
        Some (step (configuration f0))"
    if f: "files w (filename self) = Some (f0 # fs)"
  proof -
    let ?s = "self\<lparr>p_frame := - 1, p_file := \<lparr>frames = f0 # fs, is_open = True\<rparr>\<rparr>"
    obtain lx ly lz xy xz yz where bx: "box (configuration f0) = (lx, ly, lz, xy, xz, yz)"
      by (metis prod_cases6)
    have g: "getitem (p_file ?s) 0 = Inr f0"
      by (simp add: getitem_def)
    have n: "read_next_timestep ?s = read_frame ?s 0"
      by (simp add: read_next_timestep_def)
    show ?thesis
      unfolding reopen_found [OF f] fst_conv snd_conv n
      using g by (simp add: read_frame_found [OF g bx])
  qed
  with reopen_cursor [of w self] show ?thesis
    by blast
qed

theorem C7_reopen_resets_cursor_witness:
  "files ex_world (filename ex_reader) = Some ex_frames \<and>
   p_frame (snd (read_frame ex_reader 3)) = 3 \<and>
   p_frame (fst (snd (reopen ex_world (snd (read_frame ex_reader 3))))) = - 1 \<and>
   p_frame (snd (read_next_timestep
     (fst (snd (reopen ex_world (snd (read_frame ex_reader 3))))))) = 0 \<and>
   data_step (ts (snd (read_next_timestep
     (fst (snd (reopen ex_world (snd (read_frame ex_reader 3)))))))) = Some 0"
proof -
  have g: "getitem (p_file ex_reader) 3 = Inr (ex_frame 300 0 99 2)"
    by (simp add: getitem_def ex_reader_def ex_frames_def)
  have c: "p_frame (snd (read_frame ex_reader 3)) = 3"
    by (simp add: read_frame_cursor [OF g])
  have n: "filename (snd (read_frame ex_reader 3)) = ''traj.gsd''"
    by (simp add: read_frame_def Let_def ex_reader_def split: sum.splits error.splits)
  have f: "files ex_world (filename (snd (read_frame ex_reader 3))) =
             Some (ex_frame 0 0 2 2 # tl ex_frames)"
    by (simp add: n ex_world_def ex_frames_def)
  have f': "files ex_world (filename ex_reader) = Some ex_frames"
    by (simp add: ex_world_def ex_reader_def)
  have s: "step (configuration (ex_frame 0 0 2 2)) = 0"
    by (simp add: ex_frame_def)
  from C7_reopen_resets_cursor [of ex_world "snd (read_frame ex_reader 3)"
      "ex_frame 0 0 2 2" "tl ex_frames"] f
  have "p_frame (fst (snd (reopen ex_world (snd (read_frame ex_reader 3))))) = - 1"
    and "p_frame (snd (read_next_timestep
           (fst (snd (reopen ex_world (snd (read_frame ex_reader 3))))))) = 0"
    and "data_step (ts (snd (read_next_timestep
           (fst (snd (reopen ex_world (snd (read_frame ex_reader 3)))))))) =
         Some (step (configuration (ex_frame 0 0 2 2)))"
    by blast+
  with f' c s show ?thesis
    by simp
qed

subsection \<open>Construction\<close>

lemma init_opens_otherwise:
  "os_name \<noteq> ''nt'' \<Longrightarrow>
   io_log (snd (GSDReader_init w os_name name)) = io_log w @ [Open_rb name]"
  by (simp add: GSDReader_init_def open_trajectory_def gsd_hoomd_open_def blank_def Let_def
      split: option.splits sum.splits prod.splits)

lemma read_frame_n_atoms_res:
  "read_frame self k = (res, r) \<Longrightarrow> n_atoms r = n_atoms self"
  using read_frame_n_atoms [of self k] by simp

lemma init_n_atoms:
  assumes "GSDReader_init w os_name name = (Inr r, w1)"
  shows "\<exists>f0 fs. files w name = Some (f0 # fs) \<and> n_atoms r = N (particles f0)"
proof -
  from assms have os: "os_name \<noteq> ''nt''"
    by (auto simp: GSDReader_init_def)
  from assms os obtain fs0 where f: "files w name = Some fs0"
    by (cases "files w name")
      (auto simp: GSDReader_init_def open_trajectory_def gsd_hoomd_open_def blank_def Let_def)
  have o: "open_trajectory w (blank name) =
     (Inr (), (blank name)\<lparr>p_frame := - 1, p_file := \<lparr>frames = fs0, is_open = True\<rparr>\<rparr>,
      w\<lparr>io_log := io_log w @ [Open_rb name]\<rparr>)"
    using open_trajectory_found [of w "blank name" fs0] f by (simp add: blank_def)
  from assms os obtain f0 fs where c: "fs0 = f0 # fs"
    by (cases fs0) (auto simp: GSDReader_init_def o getitem_def)
  from assms os have "n_atoms r = N (particles f0)"
    by (auto simp: GSDReader_init_def o c getitem_def Let_def read_next_timestep_def
        split: prod.splits sum.splits dest: read_frame_n_atoms_res)
  with f c show ?thesis by blast
qed

text \<open>
  C8. On the platform without the container library (\<^verbatim>\<open>os.name == 'nt'\<close>), the
  constructor fails with \<^verbatim>\<open>NotImplementedError\<close> and the world is untouched: no file
  operation is logged, so the container is never opened.
\<close>

theorem C8_unsupported_platform:
  "GSDReader_init w ''nt'' name = (Inl NotImplementedError, w) \<and>
   io_log (snd (GSDReader_init w ''nt'' name)) = io_log w"
  by (simp add: GSDReader_init_def)

theorem C8_unsupported_platform_witness:
  "GSDReader_init ex_world ''nt'' ''traj.gsd'' = (Inl NotImplementedError, ex_world) \<and>
   io_log (snd (GSDReader_init ex_world ''nt'' ''traj.gsd'')) = [] \<and>
   io_log (snd (GSDReader_init ex_world ''posix'' ''traj.gsd'')) = [Open_rb ''traj.gsd'']"
  using C8_unsupported_platform [of ex_world "''traj.gsd''"]
  by (simp add: init_example) (simp add: ex_world_def)

subsection \<open>What a failed read leaves behind\<close>

text \<open>
  C9. When the read of index \<open>i\<close> fails on a particle-count mismatch, the reader is only
  partly unchanged: the cursor, the timestep's frame, its step, its dimensions (with the
  derived angles) and its tilt factors are already those of frame \<open>i\<close>; the positions,
  velocities and images are still the old ones.
\<close>

theorem C9_partial_update_on_mismatch:
  assumes "getitem (p_file self) i = Inr f"
    and "box (configuration f) = (lx, ly, lz, xy, xz, yz)"
    and "int (length (position (particles f))) \<noteq> n_atoms self"
  shows "(\<exists>a b c. fst (read_frame self i) = Inl (ValueError a b c)) \<and>
         p_frame (snd (read_frame self i)) = i \<and>
         frame (ts (snd (read_frame self i))) = i \<and>
         data_step (ts (snd (read_frame self i))) = Some (step (configuration f)) \<and>
         dimensions (ts (snd (read_frame self i))) =
           [lx, ly, lz, spec_alpha xy xz yz, spec_beta xy xz yz, spec_gamma xy xz yz] \<and>
         tilt_factors (ts (snd (read_frame self i))) = Some [xy, xz, yz] \<and>
         positions (ts (snd (read_frame self i))) = positions (ts self) \<and>
         velocities (ts (snd (read_frame self i))) = velocities (ts self) \<and>
         images (ts (snd (read_frame self i))) = images (ts self)"
  using assms(3) by (simp add: read_frame_found [OF assms(1,2)])

theorem C9_partial_update_on_mismatch_witness:
  "getitem (p_file ex_reader) 2 = Inr (ex_frame 200 1 1 1) \<and>
   p_frame ex_reader = 0 \<and> frame (ts ex_reader) = 0 \<and> data_step (ts ex_reader) = Some 0 \<and>
   dimensions (ts ex_reader) = [10, 10, 10, 90, 90, 90] \<and>
   tilt_factors (ts ex_reader) = Some [0, 0, 0] \<and>
   (\<exists>a b c. fst (read_frame ex_reader 2) = Inl (ValueError a b c)) \<and>
   p_frame (snd (read_frame ex_reader 2)) = 2 \<and>
   frame (ts (snd (read_frame ex_reader 2))) = 2 \<and>
   data_step (ts (snd (read_frame ex_reader 2))) = Some 200 \<and>
   dimensions (ts (snd (read_frame ex_reader 2))) = [10, 10, 10, 90, 90, 45] \<and>
   tilt_factors (ts (snd (read_frame ex_reader 2))) = Some [1, 0, 0] \<and>
   positions (ts (snd (read_frame ex_reader 2))) = positions (ts ex_reader)"
proof -
  have g: "getitem (p_file ex_reader) 2 = Inr (ex_frame 200 1 1 1)"
    by (simp add: getitem_def ex_reader_def ex_frames_def)
  have b: "box (configuration (ex_frame 200 1 1 1)) = (10, 10, 10, 1, 0, 0)"
    by (simp add: ex_frame_def)
  have n: "int (length (position (particles (ex_frame 200 1 1 1)))) \<noteq> n_atoms ex_reader"
    by (simp add: ex_frame_def ex_reader_def)
  have s: "step (configuration (ex_frame 200 1 1 1)) = 200"
    by (simp add: ex_frame_def)
  have e: "p_frame ex_reader = 0" "frame (ts ex_reader) = 0" "data_step (ts ex_reader) = Some 0"
    "dimensions (ts ex_reader) = [10, 10, 10, 90, 90, 90]"
    "tilt_factors (ts ex_reader) = Some [0, 0, 0]"
    by (simp_all add: ex_reader_def)
  from C9_partial_update_on_mismatch [OF g b n] g e s show ?thesis
    by (simp add: spec_angles_known_case)
qed

subsection \<open>Which count is checked\<close>

text \<open>
  C10. The reference count of a constructed reader is the declared count \<open>N\<close> of
  frame 0, and no read changes it. The count a read checks against it is the length of
  the frame's position array: the read fails with the mismatch error exactly when that
  length differs from the reference, succeeds exactly when it is equal, and has the same
  outcome when the frame's declared count \<open>N\<close> is replaced by any other number.
\<close>

theorem C10_count_is_position_length:
  "(GSDReader_init w os_name name = (Inr r, w1) \<longrightarrow>
      (\<exists>f0 fs. files w name = Some (f0 # fs) \<and> n_atoms r = N (particles f0))) \<and>
   n_atoms (snd (read_frame self i)) = n_atoms self \<and>
   (getitem (p_file self) i = Inr f \<longrightarrow>
      (fst (read_frame self i) =
         Inl (ValueError i (int (length (position (particles f)))) (n_atoms self)) \<longleftrightarrow>
       int (length (position (particles f))) \<noteq> n_atoms self) \<and>
      ((\<exists>t. fst (read_frame self i) = Inr t) \<longleftrightarrow>
       int (length (position (particles f))) = n_atoms self)) \<and>
   (getitem (p_file self) i = Inr f \<and>
    getitem (p_file self2) i = Inr (f\<lparr>particles := (particles f)\<lparr>N := m\<rparr>\<rparr>) \<and>
    n_atoms self2 = n_atoms self \<and> ts self2 = ts self \<longrightarrow>
      fst (read_frame self2 i) = fst (read_frame self i))"
proof -
  obtain lx ly lz xy xz yz where bx: "box (configuration f) = (lx, ly, lz, xy, xz, yz)"
    by (metis prod_cases6)
  have a: "\<exists>f0 fs. files w name = Some (f0 # fs) \<and> n_atoms r = N (particles f0)"
    if "GSDReader_init w os_name name = (Inr r, w1)"
    using that by (rule init_n_atoms)
  have b: "(fst (read_frame self i) =
         Inl (ValueError i (int (length (position (particles f)))) (n_atoms self)) \<longleftrightarrow>
       int (length (position (particles f))) \<noteq> n_atoms self) \<and>
      ((\<exists>t. fst (read_frame self i) = Inr t) \<longleftrightarrow>
       int (length (position (particles f))) = n_atoms self)"
    if g: "getitem (p_file self) i = Inr f"
    by (simp add: read_frame_found [OF g bx])
  have c: "fst (read_frame self2 i) = fst (read_frame self i)"
    if g: "getitem (p_file self) i = Inr f"
      and g2: "getitem (p_file self2) i = Inr (f\<lparr>particles := (particles f)\<lparr>N := m\<rparr>\<rparr>)"
      and n: "n_atoms self2 = n_atoms self" and t: "ts self2 = ts self"
  proof -
    have bx2: "box (configuration (f\<lparr>particles := (particles f)\<lparr>N := m\<rparr>\<rparr>)) =
                 (lx, ly, lz, xy, xz, yz)"
      using bx by simp
    show ?thesis
      by (simp add: read_frame_found [OF g bx] read_frame_found [OF g2 bx2] n t)
  qed
  from a b c show ?thesis
    by (simp add: read_frame_n_atoms)
qed


theorem C10_count_is_position_length_witness:
  "GSDReader_init ex_world ''posix'' ''traj.gsd'' =
     (Inr ex_reader, ex_world\<lparr>io_log := [Open_rb ''traj.gsd'']\<rparr>) \<and>
   n_atoms ex_reader = N (particles (ex_frame 0 0 2 2)) \<and>
   getitem (p_file ex_reader) 3 = Inr (ex_frame 300 0 99 2) \<and>
   N (particles (ex_frame 300 0 99 2)) = 99 \<and>
   int (length (position (particles (ex_frame 300 0 99 2)))) = 2 \<and>
   (\<exists>t. fst (read_frame ex_reader 3) = Inr t) \<and>
   getitem (p_file ex_reader) 4 = Inr (ex_frame 400 0 2 1) \<and>
   N (particles (ex_frame 400 0 2 1)) = 2 \<and>
   int (length (position (particles (ex_frame 400 0 2 1)))) = 1 \<and>
   fst (read_frame ex_reader 4) = Inl (ValueError 4 1 2)"
proof -
  have i: "GSDReader_init ex_world ''posix'' ''traj.gsd'' =
     (Inr ex_reader, ex_world\<lparr>io_log := [Open_rb ''traj.gsd'']\<rparr>)"
    by (rule init_example)
  have f: "files ex_world ''traj.gsd'' = Some ex_frames"
    by (simp add: ex_world_def)
  have g3: "getitem (p_file ex_reader) 3 = Inr (ex_frame 300 0 99 2)"
    and g4: "getitem (p_file ex_reader) 4 = Inr (ex_frame 400 0 2 1)"
    by (simp_all add: getitem_def ex_reader_def ex_frames_def)
  have e: "N (particles (ex_frame 300 0 99 2)) = 99"
    "int (length (position (particles (ex_frame 300 0 99 2)))) = 2"
    "N (particles (ex_frame 400 0 2 1)) = 2"
    "int (length (position (particles (ex_frame 400 0 2 1)))) = 1"
    "n_atoms ex_reader = 2"
    by (simp_all add: ex_frame_def ex_reader_def)
  note t3 = C10_count_is_position_length [of ex_world "''posix''" "''traj.gsd''" ex_reader
      "ex_world\<lparr>io_log := [Open_rb ''traj.gsd'']\<rparr>" ex_reader 3 "ex_frame 300 0 99 2"
      ex_reader 99]
  note t4 = C10_count_is_position_length [of ex_world "''posix''" "''traj.gsd''" ex_reader
      "ex_world\<lparr>io_log := [Open_rb ''traj.gsd'']\<rparr>" ex_reader 4 "ex_frame 400 0 2 1"
      ex_reader 2]
  from t3 i have "\<exists>f0 fs. files ex_world ''traj.gsd'' = Some (f0 # fs) \<and>
      n_atoms ex_reader = N (particles f0)"
    by blast
  with f have a: "n_atoms ex_reader = N (particles (ex_frame 0 0 2 2))"
    by (auto simp: ex_frames_def)
  from t3 g3 e have b: "\<exists>t. fst (read_frame ex_reader 3) = Inr t"
    by simp
  from t4 g4 e have c: "fst (read_frame ex_reader 4) = Inl (ValueError 4 1 2)"
    by simp
  from i a g3 g4 e b c show ?thesis
    by blast
qed

end
